theory Spec2Isabelle
  imports Complex_Main
begin

section \<open>Prediction reconciliation: merging, disagreements and majority vote\<close>

text \<open>
  A shallow embedding of \<^verbatim>\<open>src/hashiguchi/extract_disagreements.py\<close>. The script reads
  prediction files (columns \<^verbatim>\<open>PassengerId\<close>, \<^verbatim>\<open>Transported\<close>), inner-joins them on the
  identifier, extracts the rows on which the sources differ and, for an odd number of
  sources, writes a majority vote.

  The file system the script reads is a map from paths to the tables that
  \<^verbatim>\<open>pd.read_csv\<close> returns for the files; a path outside its domain does not exist.
  Console output and written files are the
  script's effects and are threaded through every function in a \<open>world\<close> record. The
  files the script writes are logged there and not read back: \<open>main\<close> derives the
  disagreement file's name from all input stems, so it names none of the inputs, and the
  final submission is the last thing written.
\<close>

subsection \<open>Data\<close>

text \<open>
  A value of the \<^verbatim>\<open>PassengerId\<close> column as \<^verbatim>\<open>pd.read_csv\<close> returns it. The reader
  infers the type of the column for each file. A column of numerals is read as numbers,
  and the join compares numbers by value: \<^verbatim>\<open>01\<close>, \<^verbatim>\<open>1\<close> and \<^verbatim>\<open>1.0\<close> are one
  identifier. Any other column is read as text, and the text \<^verbatim>\<open>1\<close> of such a column
  is not the number 1 of a numeric one. An empty cell is read as a missing value, which
  the join matches with itself. Numbers are exact here, as the reader's integers and
  its floats below \<open>2 ^ 53\<close> are.
\<close>

datatype record_id = Number rat | Text string | Missing

text \<open>
  The rows of one input file as read: identifier and boolean prediction, in file order.
\<close>

type_synonym prediction_table = "(record_id \<times> bool) list"

type_synonym file_system = "string \<rightharpoonup> prediction_table"

text \<open>
  A data frame indexed by \<^verbatim>\<open>PassengerId\<close>: the labels of its value columns and, per
  row, the index value with one boolean per column. The index need not be unique
  (\<^verbatim>\<open>set_index\<close> does not verify integrity).
\<close>

record data_frame =
  columns :: "string list"
  rows :: "(record_id \<times> bool list) list"

text \<open>What \<^verbatim>\<open>to_csv\<close> puts in a file: the header line and the data lines.\<close>

record csv_content =
  header :: "string list"
  body :: "(record_id \<times> bool list) list"

datatype py_error =
    IndexError
  | FileNotFoundError string
  | ValueError "string list"
  | ZeroDivisionError
  | SystemExit int

text \<open>One constructor per \<^verbatim>\<open>print\<close> of the script, carrying the values it formats.\<close>

datatype message =
    WarnEvenCount nat
  | EnsembleHeader
  | UsedFiles nat
  | TruePredictions nat
  | FalsePredictions nat
  | SavedFinal string
  | ErrFileNotFound string
  | LoadedFile string nat
  | MergedRows nat
  | DisagreementRows nat
  | SavedTo string
  | StatsHeader
  | TotalRows nat
  | DisagreementCount nat
  | AgreementRate rat
  | DistributionHeader
  | ColumnDistribution string nat nat
  | SampleHeader
  | Sample data_frame
  | NoDisagreements
  | WarnMissingHeader
  | MissingFile string
  | ErrNoFiles
  | ProcessingExisting "string list"
  | Banner
  | InputFiles "string list"
  | OutputFile string
  | BlankLine
  | NoteEvenCount nat
  | ComparisonOnly
  | DoneSaved nat string
  | Done

record world =
  console :: "message list"
  written :: "(string \<times> csv_content) list"

record config =
  CSV_FILES :: "string list"
  CREATE_FINAL_SUBMISSION :: bool

subsection \<open>Library operations the script calls\<close>

definition py_print :: "message \<Rightarrow> world \<Rightarrow> world" where
  "py_print msg w = w\<lparr>console := console w @ [msg]\<rparr>"

definition to_csv :: "string \<Rightarrow> csv_content \<Rightarrow> world \<Rightarrow> world" where
  "to_csv path c w = w\<lparr>written := written w @ [(path, c)]\<rparr>"

definition os_path_exists :: "file_system \<Rightarrow> string \<Rightarrow> bool" where
  "os_path_exists fs file = (fs file \<noteq> None)"

text \<open>
  \<^verbatim>\<open>pd.read_csv\<close>: the table the reader returns for the file, its identifiers typed
  as the reader infers them for that file; \<^verbatim>\<open>FileNotFoundError\<close> when there is no file.
\<close>

definition read_csv :: "file_system \<Rightarrow> string \<Rightarrow> py_error + prediction_table" where
  "read_csv fs file =
     (case fs file of None \<Rightarrow> Inl (FileNotFoundError file) | Some t \<Rightarrow> Inr t)"

text \<open>\<^verbatim>\<open>str.startswith\<close>.\<close>

fun startswith :: "string \<Rightarrow> string \<Rightarrow> bool" where
  "startswith s [] = True"
| "startswith [] (p # ps) = False"
| "startswith (c # cs) (p # ps) = (c = p \<and> startswith cs ps)"

text \<open>
  \<^verbatim>\<open>Path(p).stem\<close> for POSIX paths: the last component of the path (empty and \<^verbatim>\<open>.\<close>
  components dropped), cut at its last dot when that dot is neither its first nor its
  last character.
\<close>

fun split_path :: "string \<Rightarrow> string \<Rightarrow> string list" where
  "split_path cur [] = [cur]"
| "split_path cur (c # cs) =
     (if c = CHR ''/'' then cur # split_path [] cs else split_path (cur @ [c]) cs)"

definition path_name :: "string \<Rightarrow> string" where
  "path_name p =
     (case rev (filter (\<lambda>c. c \<noteq> [] \<and> c \<noteq> ''.'') (split_path [] p)) of
        [] \<Rightarrow> []
      | c # _ \<Rightarrow> c)"

fun rfind_dot :: "string \<Rightarrow> nat option" where
  "rfind_dot [] = None"
| "rfind_dot (c # cs) =
     (case rfind_dot cs of
        Some i \<Rightarrow> Some (Suc i)
      | None \<Rightarrow> if c = CHR ''.'' then Some 0 else None)"

definition stem :: "string \<Rightarrow> string" where
  "stem p =
     (let name = path_name p in
      case rfind_dot name of
        None \<Rightarrow> name
      | Some i \<Rightarrow> if 0 < i \<and> Suc i < length name then take i name else name)"

text \<open>
  \<^verbatim>\<open>df.set_index('PassengerId').rename(columns={'Transported': f'Transported_{stem}'})\<close>
  on a freshly read file.
\<close>

definition column_label :: "string \<Rightarrow> string" where
  "column_label file = ''Transported_'' @ stem file"

definition set_index_rename :: "string \<Rightarrow> prediction_table \<Rightarrow> data_frame" where
  "set_index_rename file t =
     \<lparr>columns = [column_label file], rows = map (\<lambda>(i, b). (i, [b])) t\<rparr>"

text \<open>
  \<^verbatim>\<open>left.join(right, how='inner')\<close> with no suffixes: pandas raises \<^verbatim>\<open>ValueError\<close> when
  the two frames share a column label; otherwise every left row is paired, in left
  order, with every right row of the same index value.
\<close>

definition join_inner :: "data_frame \<Rightarrow> data_frame \<Rightarrow> py_error + data_frame" where
  "join_inner l r =
     (let overlap = filter (\<lambda>c. c \<in> set (columns r)) (columns l) in
      if overlap \<noteq> [] then Inl (ValueError overlap)
      else Inr \<lparr>columns = columns l @ columns r,
                rows = concat (map (\<lambda>(i, vs).
                         map (\<lambda>(j, ws). (i, vs @ ws)) (filter (\<lambda>(j, ws). j = i) (rows r)))
                       (rows l))\<rparr>)"

text \<open>\<^verbatim>\<open>df[cols]\<close> restricted to one row: the values under the selected labels.\<close>

definition select_values :: "string list \<Rightarrow> string list \<Rightarrow> bool list \<Rightarrow> bool list" where
  "select_values cols sel vs = map snd (filter (\<lambda>(c, v). c \<in> set sel) (zip cols vs))"

text \<open>\<^verbatim>\<open>df[mask]\<close>: the rows at which the boolean mask holds.\<close>

definition boolean_index :: "data_frame \<Rightarrow> bool list \<Rightarrow> data_frame" where
  "boolean_index df msk = df\<lparr>rows := map fst (filter snd (zip (rows df) msk))\<rparr>"

text \<open>Row-wise \<^verbatim>\<open>sum\<close> over boolean columns, and row-wise \<^verbatim>\<open>nunique\<close>.\<close>

definition true_count :: "bool list \<Rightarrow> nat" where
  "true_count vs = length (filter (\<lambda>v. v) vs)"

definition nunique :: "bool list \<Rightarrow> nat" where
  "nunique vs = length (remdups vs)"

text \<open>\<^verbatim>\<open>df.reset_index()\<close> as \<^verbatim>\<open>to_csv(..., index=False)\<close> writes it.\<close>

definition frame_csv :: "data_frame \<Rightarrow> csv_content" where
  "frame_csv df = \<lparr>header = ''PassengerId'' # columns df, body = rows df\<rparr>"

definition submission_csv :: "prediction_table \<Rightarrow> csv_content" where
  "submission_csv t =
     \<lparr>header = [''PassengerId'', ''Transported''], body = map (\<lambda>(i, b). (i, [b])) t\<rparr>"

subsection \<open>\<^verbatim>\<open>create_ensemble_prediction\<close>\<close>

text \<open>Lines 54 to 58: the remaining files are read and joined one by one.\<close>

fun ensemble_join :: "file_system \<Rightarrow> string list \<Rightarrow> data_frame \<Rightarrow> py_error + data_frame" where
  "ensemble_join fs [] final_df = Inr final_df"
| "ensemble_join fs (file # files) final_df =
     (case read_csv fs file of
        Inl e \<Rightarrow> Inl e
      | Inr df \<Rightarrow>
          (case join_inner final_df (set_index_rename file df) of
             Inl e \<Rightarrow> Inl e
           | Inr final_df' \<Rightarrow> ensemble_join fs files final_df'))"

text \<open>Lines 49 to 58: \<^verbatim>\<open>csv_files[0]\<close> starts the frame, the loop joins the rest.\<close>

definition ensemble_merge :: "file_system \<Rightarrow> string list \<Rightarrow> py_error + data_frame" where
  "ensemble_merge fs csv_files =
     (case csv_files of
        [] \<Rightarrow> Inl IndexError
      | file0 # files \<Rightarrow>
          (case read_csv fs file0 of
             Inl e \<Rightarrow> Inl e
           | Inr df0 \<Rightarrow> ensemble_join fs files (set_index_rename file0 df0)))"

definition transported_cols :: "data_frame \<Rightarrow> string list" where
  "transported_cols df = filter (\<lambda>col. startswith col ''Transported_'') (columns df)"

text \<open>
  Lines 61 to 69. The threshold \<^verbatim>\<open>len(transported_cols) / 2\<close> is a true division; it is
  taken over the rationals here (the float is exact for any realistic column count).
\<close>

definition majority_vote :: "data_frame \<Rightarrow> prediction_table" where
  "majority_vote final_df =
     (let cols = transported_cols final_df in
      map (\<lambda>(i, vs).
            (i, (of_nat (length cols) :: rat) / 2
                  < of_nat (true_count (select_values (columns final_df) cols vs))))
          (rows final_df))"

text \<open>Lines 72 to 78: the result is saved and summarised.\<close>

definition save_final :: "string list \<Rightarrow> prediction_table \<Rightarrow> string \<Rightarrow> world \<Rightarrow> world" where
  "save_final csv_files result_df final_output_file w =
     (let w1 = to_csv final_output_file (submission_csv result_df) w;
          w2 = py_print EnsembleHeader w1;
          w3 = py_print (UsedFiles (length csv_files)) w2;
          w4 = py_print (TruePredictions (true_count (map snd result_df))) w3;
          w5 = py_print (FalsePredictions (true_count (map (\<lambda>r. \<not> snd r) result_df))) w4
      in py_print (SavedFinal final_output_file) w5)"

definition create_ensemble_prediction ::
  "file_system \<Rightarrow> string list \<Rightarrow> string \<Rightarrow> world \<Rightarrow> world \<times> (py_error + prediction_table option)"
where
  "create_ensemble_prediction fs csv_files final_output_file w =
     (if length csv_files mod 2 = 0
      then (py_print (WarnEvenCount (length csv_files)) w, Inr None)
      else
        (case ensemble_merge fs csv_files of
           Inl e \<Rightarrow> (w, Inl e)
         | Inr final_df \<Rightarrow>
             (let result_df = majority_vote final_df
              in (save_final csv_files result_df final_output_file w, Inr (Some result_df)))))"

subsection \<open>\<^verbatim>\<open>extract_disagreements\<close>\<close>

text \<open>Lines 109 to 117: as above, with the row count of each file reported.\<close>

fun merge_loop ::
  "file_system \<Rightarrow> string list \<Rightarrow> data_frame \<Rightarrow> world \<Rightarrow> world \<times> (py_error + data_frame)"
where
  "merge_loop fs [] merged_df w = (w, Inr merged_df)"
| "merge_loop fs (file # files) merged_df w =
     (case read_csv fs file of
        Inl e \<Rightarrow> (w, Inl e)
      | Inr df \<Rightarrow>
          (let w1 = py_print (LoadedFile file (length df)) w in
           case join_inner merged_df (set_index_rename file df) of
             Inl e \<Rightarrow> (w1, Inl e)
           | Inr merged_df' \<Rightarrow> merge_loop fs files merged_df' w1))"

text \<open>Lines 101 to 117.\<close>

definition merge_files ::
  "file_system \<Rightarrow> string list \<Rightarrow> world \<Rightarrow> world \<times> (py_error + data_frame)"
where
  "merge_files fs csv_files w =
     (case csv_files of
        [] \<Rightarrow> (w, Inl IndexError)
      | file0 # files \<Rightarrow>
          (case read_csv fs file0 of
             Inl e \<Rightarrow> (w, Inl e)
           | Inr df0 \<Rightarrow>
               merge_loop fs files (set_index_rename file0 df0)
                 (py_print (LoadedFile file0 (length df0)) w)))"

text \<open>Lines 123 to 129.\<close>

definition disagreement_mask :: "data_frame \<Rightarrow> bool list" where
  "disagreement_mask merged_df =
     (let cols = transported_cols merged_df in
      map (\<lambda>(i, vs). 1 < nunique (select_values (columns merged_df) cols vs))
          (rows merged_df))"

definition disagreement_rows :: "data_frame \<Rightarrow> data_frame" where
  "disagreement_rows merged_df = boolean_index merged_df (disagreement_mask merged_df)"

text \<open>Line 142: the agreement rate, a division by the merged row count.\<close>

definition agreement_rate :: "nat \<Rightarrow> nat \<Rightarrow> py_error + rat" where
  "agreement_rate n_merged n_dis =
     (if n_merged = 0 then Inl ZeroDivisionError
      else Inr (of_int (int n_merged - int n_dis) / of_nat n_merged * 100))"

text \<open>Lines 146 to 149: the distribution of each column over the disagreement rows.\<close>

definition column_values :: "data_frame \<Rightarrow> string \<Rightarrow> bool list" where
  "column_values df col = concat (map (\<lambda>(i, vs). select_values (columns df) [col] vs) (rows df))"

fun print_distribution :: "data_frame \<Rightarrow> string list \<Rightarrow> world \<Rightarrow> world" where
  "print_distribution df [] w = w"
| "print_distribution df (col # cols) w =
     print_distribution df cols
       (py_print (ColumnDistribution col
                    (true_count (column_values df col))
                    (true_count (map Not (column_values df col)))) w)"

text \<open>Lines 134 to 153: the branch taken when there is at least one disagreement.\<close>

definition save_and_report ::
  "data_frame \<Rightarrow> data_frame \<Rightarrow> string \<Rightarrow> world \<Rightarrow> world \<times> (py_error + unit)"
where
  "save_and_report merged_df disagreements_df output_file w =
     (let w1 = to_csv output_file (frame_csv disagreements_df) w;
          w2 = py_print (SavedTo output_file) w1;
          w3 = py_print StatsHeader w2;
          w4 = py_print (TotalRows (length (rows merged_df))) w3;
          w5 = py_print (DisagreementCount (length (rows disagreements_df))) w4
      in case agreement_rate (length (rows merged_df)) (length (rows disagreements_df)) of
           Inl e \<Rightarrow> (w5, Inl e)
         | Inr rate \<Rightarrow>
             (let w6 = py_print (AgreementRate rate) w5;
                  w7 = py_print DistributionHeader w6;
                  w8 = print_distribution disagreements_df (transported_cols merged_df) w7;
                  w9 = py_print SampleHeader w8
              in (py_print (Sample (disagreements_df\<lparr>rows := take 10 (rows disagreements_df)\<rparr>)) w9,
                  Inr ())))"

text \<open>Lines 119 to 158: everything after the merge.\<close>

definition analyse ::
  "data_frame \<Rightarrow> string \<Rightarrow> world \<Rightarrow> world \<times> (py_error + data_frame option)"
where
  "analyse merged_df output_file w =
     (let w1 = py_print (MergedRows (length (rows merged_df))) w;
          disagreements_df = disagreement_rows merged_df;
          w2 = py_print (DisagreementRows (length (rows disagreements_df))) w1
      in if 0 < length (rows disagreements_df)
         then
           (case save_and_report merged_df disagreements_df output_file w2 of
              (w3, Inl e) \<Rightarrow> (w3, Inl e)
            | (w3, Inr u) \<Rightarrow> (w3, Inr (Some disagreements_df)))
         else (py_print NoDisagreements w2, Inr (Some disagreements_df)))"

definition extract_disagreements ::
  "file_system \<Rightarrow> string list \<Rightarrow> string \<Rightarrow> world \<Rightarrow> world \<times> (py_error + data_frame option)"
where
  "extract_disagreements fs csv_files output_file w =
     (case find (\<lambda>file. \<not> os_path_exists fs file) csv_files of
        Some file \<Rightarrow> (py_print (ErrFileNotFound file) w, Inr None)
      | None \<Rightarrow>
          (case merge_files fs csv_files w of
             (w1, Inl e) \<Rightarrow> (w1, Inl e)
           | (w1, Inr merged_df) \<Rightarrow> analyse merged_df output_file w1))"

subsection \<open>\<^verbatim>\<open>main\<close>\<close>

fun print_missing :: "string list \<Rightarrow> world \<Rightarrow> world" where
  "print_missing [] w = w"
| "print_missing (f # fs) w = print_missing fs (py_print (MissingFile f) w)"

text \<open>Lines 174 to 177.\<close>

definition warn_missing :: "string list \<Rightarrow> world \<Rightarrow> world" where
  "warn_missing missing_files w =
     (if missing_files \<noteq> []
      then print_missing missing_files (py_print WarnMissingHeader w) else w)"

text \<open>\<^verbatim>\<open>'_vs_'.join(file_stems)\<close> and the file name of line 190.\<close>

fun join_vs :: "string list \<Rightarrow> string" where
  "join_vs [] = []"
| "join_vs [s] = s"
| "join_vs (s # t # ss) = s @ ''_vs_'' @ join_vs (t # ss)"

definition disagreements_file :: "string list \<Rightarrow> string" where
  "disagreements_file csv_files = ''disagreements_'' @ join_vs (map stem csv_files) @ ''.csv''"

text \<open>Lines 183 to 195: what is announced before the analysis starts.\<close>

definition announce :: "string list \<Rightarrow> string list \<Rightarrow> world \<Rightarrow> world" where
  "announce configured existing_files w =
     (let w1 = (if length existing_files \<noteq> length configured
                then py_print (ProcessingExisting existing_files) w else w);
          w2 = py_print Banner w1;
          w3 = py_print (InputFiles existing_files) w2;
          w4 = py_print (OutputFile (disagreements_file existing_files)) w3
      in py_print BlankLine w4)"

text \<open>Lines 201 to 207: the final prediction, when it is configured.\<close>

definition final_submission ::
  "bool \<Rightarrow> file_system \<Rightarrow> string list \<Rightarrow> world \<Rightarrow> world \<times> (py_error + unit)"
where
  "final_submission enabled fs csv_files w =
     (if enabled
      then (if length csv_files mod 2 = 1
            then (case create_ensemble_prediction fs csv_files ''final_submission.csv'' w of
                    (w1, Inl e) \<Rightarrow> (w1, Inl e)
                  | (w1, Inr final_df) \<Rightarrow> (w1, Inr ()))
            else (py_print (NoteEvenCount (length csv_files)) w, Inr ()))
      else (py_print ComparisonOnly w, Inr ()))"

text \<open>Lines 209 to 212.\<close>

definition closing :: "data_frame option \<Rightarrow> string \<Rightarrow> world \<Rightarrow> world" where
  "closing disagreements_df output_file w =
     (case disagreements_df of
        Some d \<Rightarrow>
          if 0 < length (rows d) then py_print (DoneSaved (length (rows d)) output_file) w
          else py_print Done w
      | None \<Rightarrow> py_print Done w)"

definition main :: "config \<Rightarrow> file_system \<Rightarrow> world \<Rightarrow> world \<times> (py_error + unit)" where
  "main cfg fs w =
     (let csv_files = CSV_FILES cfg;
          existing_files = filter (\<lambda>file. os_path_exists fs file) csv_files;
          missing_files = filter (\<lambda>file. \<not> os_path_exists fs file) csv_files;
          w1 = warn_missing missing_files w
      in if existing_files = [] then (py_print ErrNoFiles w1, Inl (SystemExit 1))
         else
           (let w2 = announce csv_files existing_files w1;
                output_file = disagreements_file existing_files
            in case extract_disagreements fs existing_files output_file w2 of
                 (w3, Inl e) \<Rightarrow> (w3, Inl e)
               | (w3, Inr disagreements_df) \<Rightarrow>
                   (case final_submission (CREATE_FINAL_SUBMISSION cfg) fs existing_files w3 of
                      (w4, Inl e) \<Rightarrow> (w4, Inl e)
                    | (w4, Inr u) \<Rightarrow> (closing disagreements_df output_file w4, Inr ()))))"


subsection \<open>Notions used to state the properties\<close>


text \<open>
  What every frame built by the merge satisfies for \<open>n\<close> sources: \<open>n\<close> columns, all
  labelled \<^verbatim>\<open>Transported_...\<close>, and \<open>n\<close> values in every row.
\<close>

definition merged_of :: "nat \<Rightarrow> data_frame \<Rightarrow> bool" where
  "merged_of n df \<longleftrightarrow>
     length (columns df) = n \<and>
     list_all (\<lambda>col. startswith col ''Transported_'') (columns df) \<and>
     list_all (\<lambda>r. length (snd r) = n) (rows df)"

text \<open>
  A row holds one value per source, the \<open>k\<close>-th being a prediction that the \<open>k\<close>-th
  file gives for the row's identifier.
\<close>

definition row_of_sources :: "file_system \<Rightarrow> string list \<Rightarrow> record_id \<times> bool list \<Rightarrow> bool" where
  "row_of_sources fs srcs r \<longleftrightarrow>
     length (snd r) = length srcs \<and>
     (\<forall>k<length srcs. \<exists>t. fs (srcs ! k) = Some t \<and> (fst r, snd r ! k) \<in> set t)"

text \<open>The sources of a row do not all say the same.\<close>

definition disagrees :: "record_id \<times> bool list \<Rightarrow> bool" where
  "disagrees r \<longleftrightarrow> (\<exists>a\<in>set (snd r). \<exists>b\<in>set (snd r). a \<noteq> b)"

subsection \<open>Example inputs\<close>

text \<open>
  Three sources over the identifiers 1, 2 and 3, a fourth file with the stem of the first
  in another directory, a file that holds the identifier 1 twice, and a file whose
  identifier column is read as text.
\<close>

definition example_fs :: file_system where
  "example_fs =
     [''a.csv'' \<mapsto> [(Number 1, True), (Number 2, False), (Number 3, True)],
      ''b.csv'' \<mapsto> [(Number 1, True), (Number 2, True), (Number 3, True)],
      ''c.csv'' \<mapsto> [(Number 1, False), (Number 2, False), (Number 3, True)],
      ''old/a.csv'' \<mapsto> [(Number 1, False), (Number 2, False)],
      ''d.csv'' \<mapsto> [(Number 1, False), (Number 1, True)],
      ''t.csv'' \<mapsto> [(Text ''1'', True), (Text ''x'', False)]]"

definition example_merged :: data_frame where
  "example_merged =
     \<lparr>columns = [''Transported_a'', ''Transported_b'', ''Transported_c''],
      rows = [(Number 1, [True, True, False]), (Number 2, [False, True, False]),
              (Number 3, [True, True, True])]\<rparr>"

definition empty_world :: world where
  "empty_world = \<lparr>console = [], written = []\<rparr>"

subsection \<open>Facts about the library operations\<close>

lemma startswith_append: "startswith (p @ s) p"
  by (induction p) auto

lemma startswith_label: "startswith (column_label file) ''Transported_''"
  unfolding column_label_def by (rule startswith_append)

lemma select_values_all: "length vs = length cols \<Longrightarrow> select_values cols cols vs = vs"
proof -
  assume len: "length vs = length cols"
  have "filter (\<lambda>(c, v). c \<in> set cols) (zip cols vs) = zip cols vs"
    by (rule filter_True) (auto dest: set_zip_leftD)
  then show ?thesis
    using len by (simp add: select_values_def)
qed

lemma transported_cols_merged: "merged_of n df \<Longrightarrow> transported_cols df = columns df"
  by (simp add: merged_of_def transported_cols_def list_all_iff)

lemma merged_of_set_index_rename: "merged_of 1 (set_index_rename file t)"
  by (auto simp: merged_of_def set_index_rename_def startswith_label list_all_iff)

lemma join_inner_row_iff:
  assumes "join_inner l r = Inr m"
  shows "x \<in> set (rows m) \<longleftrightarrow>
    (\<exists>i vs ws. x = (i, vs @ ws) \<and> (i, vs) \<in> set (rows l) \<and> (i, ws) \<in> set (rows r))"
proof -
  have eq: "rows m = concat (map (\<lambda>(i, vs).
          map (\<lambda>(j, ws). (i, vs @ ws)) (filter (\<lambda>(j, ws). j = i) (rows r))) (rows l))"
    using assms by (auto simp: join_inner_def Let_def split: if_splits)
  show ?thesis
  proof
    assume "x \<in> set (rows m)"
    then obtain p where p: "p \<in> set (rows l)"
      and x: "x \<in> set (map (\<lambda>(j, ws). (fst p, snd p @ ws))
                 (filter (\<lambda>(j, ws). j = fst p) (rows r)))"
      unfolding eq by (auto simp: split_beta)
    from x obtain q where q: "q \<in> set (rows r)" "fst q = fst p" "x = (fst p, snd p @ snd q)"
      by (auto simp: split_beta)
    have "(fst p, snd p) \<in> set (rows l)" and "(fst p, snd q) \<in> set (rows r)"
      using p q by (simp, metis prod.collapse)
    with q(3) show "\<exists>i vs ws. x = (i, vs @ ws) \<and> (i, vs) \<in> set (rows l) \<and> (i, ws) \<in> set (rows r)"
      by blast
  next
    assume "\<exists>i vs ws. x = (i, vs @ ws) \<and> (i, vs) \<in> set (rows l) \<and> (i, ws) \<in> set (rows r)"
    then obtain i vs ws where x: "x = (i, vs @ ws)"
      and l: "(i, vs) \<in> set (rows l)" and r: "(i, ws) \<in> set (rows r)"
      by blast
    have "x \<in> set (map (\<lambda>(j, ws). (i, vs @ ws)) (filter (\<lambda>(j, ws). j = i) (rows r)))"
      using r x by (force simp: image_iff)
    with l show "x \<in> set (rows m)"
      unfolding eq by (force simp: split_beta)
  qed
qed

lemma join_inner_columns: "join_inner l r = Inr m \<Longrightarrow> columns m = columns l @ columns r"
  by (auto simp: join_inner_def Let_def split: if_splits)

lemma join_inner_merged_of:
  assumes "merged_of n l" and "merged_of k r" and "join_inner l r = Inr m"
  shows "merged_of (n + k) m"
proof -
  have "length (snd x) = n + k" if "x \<in> set (rows m)" for x
  proof -
    from that obtain i vs ws where "x = (i, vs @ ws)" "(i, vs) \<in> set (rows l)" "(i, ws) \<in> set (rows r)"
      unfolding join_inner_row_iff [OF assms(3)] by blast
    with assms(1,2) show ?thesis
      by (fastforce simp: merged_of_def list_all_iff)
  qed
  with assms(1,2) join_inner_columns [OF assms(3)] show ?thesis
    by (auto simp: merged_of_def list_all_iff)
qed



subsection \<open>Facts about the merge\<close>

lemma ensemble_join_merged_of:
  "merged_of n df \<Longrightarrow> ensemble_join fs files df = Inr m \<Longrightarrow> merged_of (n + length files) m"
proof (induction files arbitrary: n df)
  case Nil
  then show ?case by simp
next
  case (Cons f files)
  from Cons.prems(2) obtain t df' where
    t: "read_csv fs f = Inr t" and
    j: "join_inner df (set_index_rename f t) = Inr df'" and
    r: "ensemble_join fs files df' = Inr m"
    by (auto split: sum.splits)
  have "merged_of (n + 1) df'"
    using join_inner_merged_of [OF Cons.prems(1) merged_of_set_index_rename j] .
  from Cons.IH [OF this r] show ?case by simp
qed

lemma ensemble_join_columns:
  "ensemble_join fs files df = Inr m \<Longrightarrow> columns m = columns df @ map column_label files"
proof (induction files arbitrary: df)
  case Nil
  then show ?case by simp
next
  case (Cons f files)
  from Cons.prems obtain t df' where
    j: "join_inner df (set_index_rename f t) = Inr df'" and
    r: "ensemble_join fs files df' = Inr m"
    by (auto split: sum.splits)
  have "columns df' = columns df @ [column_label f]"
    using join_inner_columns [OF j] by (simp add: set_index_rename_def)
  with Cons.IH [OF r] show ?case by simp
qed




lemma merge_loop_result: "snd (merge_loop fs files df w) = ensemble_join fs files df"
  by (induction files arbitrary: df w) (auto simp: Let_def split: sum.splits)

lemma py_print_written: "written (py_print msg w) = written w"
  by (simp add: py_print_def)

lemma py_print_console: "console (py_print msg w) = console w @ [msg]"
  by (simp add: py_print_def)

lemma merge_loop_written: "written (fst (merge_loop fs files df w)) = written w"
  by (induction files arbitrary: df w) (auto simp: Let_def py_print_written split: sum.splits)

lemma merge_files_result: "snd (merge_files fs csv_files w) = ensemble_merge fs csv_files"
  by (auto simp: merge_files_def ensemble_merge_def merge_loop_result split: list.splits sum.splits)

lemma merge_files_written: "written (fst (merge_files fs csv_files w)) = written w"
  by (auto simp: merge_files_def merge_loop_written py_print_written split: list.splits sum.splits)

lemma ensemble_merge_merged_of:
  "ensemble_merge fs csv_files = Inr m \<Longrightarrow> merged_of (length csv_files) m"
  using ensemble_join_merged_of [OF merged_of_set_index_rename]
  by (fastforce simp: ensemble_merge_def split: list.splits sum.splits)

lemma ensemble_merge_columns:
  "ensemble_merge fs csv_files = Inr m \<Longrightarrow> columns m = map column_label csv_files"
  by (auto simp: ensemble_merge_def set_index_rename_def split: list.splits sum.splits
      dest!: ensemble_join_columns)




subsection \<open>Facts about the disagreement filter and the vote\<close>

lemma mask_filter: "map fst (filter snd (zip xs (map P xs))) = filter P xs"
  by (induction xs) auto

lemma disagreement_rows_columns: "columns (disagreement_rows df) = columns df"
  by (simp add: disagreement_rows_def boolean_index_def)

lemma disagreement_rows_rows:
  "rows (disagreement_rows df) =
   filter (\<lambda>r. 1 < nunique (select_values (columns df) (transported_cols df) (snd r))) (rows df)"
proof -
  have "disagreement_mask df =
    map (\<lambda>r. 1 < nunique (select_values (columns df) (transported_cols df) (snd r))) (rows df)"
    by (simp add: disagreement_mask_def split_beta)
  then show ?thesis
    by (simp add: disagreement_rows_def boolean_index_def mask_filter)
qed

lemma disagreement_rows_subset: "set (rows (disagreement_rows df)) \<subseteq> set (rows df)"
  by (simp add: disagreement_rows_rows)

lemma transported_cols_disagreement_rows:
  "transported_cols (disagreement_rows df) = transported_cols df"
  by (simp add: transported_cols_def disagreement_rows_columns)

lemma nunique_disagrees: "1 < nunique (snd r) \<longleftrightarrow> disagrees r"
proof
  assume "disagrees r"
  then obtain a b where ab: "a \<in> set (snd r)" "b \<in> set (snd r)" "a \<noteq> b"
    by (auto simp: disagrees_def)
  then have "card {a, b} \<le> card (set (snd r))"
    by (intro card_mono) simp_all
  with ab(3) show "1 < nunique (snd r)"
    by (simp add: nunique_def length_remdups_card_conv)
next
  assume n: "1 < nunique (snd r)"
  show "disagrees r"
  proof (rule ccontr)
    assume "\<not> disagrees r"
    then have same: "a = b" if "a \<in> set (snd r)" "b \<in> set (snd r)" for a b
      using that by (auto simp: disagrees_def)
    have "card (set (snd r)) \<le> 1"
    proof (cases "snd r")
      case Nil
      then show ?thesis by simp
    next
      case (Cons a vs)
      then have "set (snd r) \<subseteq> {a}"
        using same [of _ a] by auto
      then have "card (set (snd r)) \<le> card {a}"
        by (intro card_mono) simp_all
      then show ?thesis by simp
    qed
    with n show False
      by (simp add: nunique_def length_remdups_card_conv)
  qed
qed

lemma merged_disagreement_rows:
  assumes "merged_of n df"
  shows "rows (disagreement_rows df) = filter disagrees (rows df)"
proof -
  have "select_values (columns df) (transported_cols df) (snd r) = snd r"
    if "r \<in> set (rows df)" for r
    using that assms
    by (simp add: transported_cols_merged [OF assms] select_values_all merged_of_def list_all_iff)
  then have "(1 < nunique (select_values (columns df) (transported_cols df) (snd r))) = disagrees r"
    if "r \<in> set (rows df)" for r
    using that by (simp only: nunique_disagrees)
  then show ?thesis
    unfolding disagreement_rows_rows by (intro filter_cong refl)
qed

lemma merged_of_disagreement_rows: "merged_of n df \<Longrightarrow> merged_of n (disagreement_rows df)"
  using disagreement_rows_subset [of df]
  by (auto simp: merged_of_def disagreement_rows_columns list_all_iff)

lemma merged_majority_vote:
  assumes "merged_of n df"
  shows "majority_vote df =
    map (\<lambda>r. (fst r, (of_nat n :: rat) / 2 < of_nat (true_count (snd r)))) (rows df)"
proof -
  have len: "length (transported_cols df) = n"
    using assms by (simp add: transported_cols_merged [OF assms] merged_of_def)
  have "select_values (columns df) (transported_cols df) (snd r) = snd r"
    if "r \<in> set (rows df)" for r
    using that assms
    by (simp add: transported_cols_merged [OF assms] select_values_all merged_of_def list_all_iff)
  then show ?thesis
    by (simp add: majority_vote_def len split_beta)
qed

subsection \<open>Facts about the effects\<close>

lemma to_csv_written: "written (to_csv path c w) = written w @ [(path, c)]"
  by (simp add: to_csv_def)

lemma print_distribution_written: "written (print_distribution df cols w) = written w"
  by (induction cols arbitrary: w) (simp_all add: py_print_written)


lemma agreement_rate_defined:
  "0 < n_merged \<Longrightarrow> \<exists>rate. agreement_rate n_merged n_dis = Inr rate"
  by (simp add: agreement_rate_def)

lemma disagreement_rows_nonempty:
  "rows (disagreement_rows df) \<noteq> [] \<Longrightarrow> rows df \<noteq> []"
  by (auto simp: disagreement_rows_rows)

lemma save_and_report_result:
  assumes "rows merged_df \<noteq> []"
  shows "\<exists>w'. save_and_report merged_df d output_file w = (w', Inr ()) \<and>
           written w' = written w @ [(output_file, frame_csv d)]"
proof -
  from assms obtain rate where
    "agreement_rate (length (rows merged_df)) (length (rows d)) = Inr rate"
    using agreement_rate_defined [of "length (rows merged_df)"] by auto
  then show ?thesis
    by (simp add: save_and_report_def Let_def py_print_written print_distribution_written
        to_csv_written)
qed

lemma analyse_nonempty:
  assumes "rows (disagreement_rows merged_df) \<noteq> []"
  shows "\<exists>w'. analyse merged_df output_file w = (w', Inr (Some (disagreement_rows merged_df))) \<and>
           written w' = written w @ [(output_file, frame_csv (disagreement_rows merged_df))]"
proof -
  have "rows merged_df \<noteq> []"
    using assms by (rule disagreement_rows_nonempty)
  from save_and_report_result [OF this] obtain w' where
    "save_and_report merged_df (disagreement_rows merged_df) output_file
       (py_print (DisagreementRows (length (rows (disagreement_rows merged_df))))
         (py_print (MergedRows (length (rows merged_df))) w)) = (w', Inr ())"
    and "written w' = written
       (py_print (DisagreementRows (length (rows (disagreement_rows merged_df))))
         (py_print (MergedRows (length (rows merged_df))) w))
       @ [(output_file, frame_csv (disagreement_rows merged_df))]"
    by blast
  with assms show ?thesis
    by (simp add: analyse_def Let_def py_print_written)
qed

lemma analyse_empty:
  assumes "rows (disagreement_rows merged_df) = []"
  shows "analyse merged_df output_file w =
    (py_print NoDisagreements (py_print (DisagreementRows 0)
       (py_print (MergedRows (length (rows merged_df))) w)),
     Inr (Some (disagreement_rows merged_df)))"
  using assms by (simp add: analyse_def Let_def)

lemma analyse_result: "snd (analyse merged_df output_file w) = Inr (Some (disagreement_rows merged_df))"
proof (cases "rows (disagreement_rows merged_df) = []")
  case True
  then show ?thesis by (simp add: analyse_empty)
next
  case False
  from analyse_nonempty [OF this, of output_file w] show ?thesis by auto
qed

lemma find_missing_None:
  "find (\<lambda>f. \<not> os_path_exists fs f) csv_files = None \<longleftrightarrow> list_all (os_path_exists fs) csv_files"
  by (auto simp: find_None_iff list_all_iff)

lemma read_csv_exists: "read_csv fs f = Inr t \<Longrightarrow> os_path_exists fs f"
  by (auto simp: read_csv_def os_path_exists_def split: option.splits)

lemma ensemble_join_exists:
  "ensemble_join fs files df = Inr m \<Longrightarrow> list_all (os_path_exists fs) files"
  by (induction files arbitrary: df) (auto split: sum.splits dest: read_csv_exists)

lemma ensemble_merge_exists:
  "ensemble_merge fs csv_files = Inr m \<Longrightarrow> list_all (os_path_exists fs) csv_files"
  by (auto simp: ensemble_merge_def split: list.splits sum.splits
      dest: read_csv_exists ensemble_join_exists)

subsection \<open>Facts about \<^verbatim>\<open>extract_disagreements\<close>\<close>

lemma extract_missing:
  "find (\<lambda>f. \<not> os_path_exists fs f) csv_files = Some f \<Longrightarrow>
   extract_disagreements fs csv_files output_file w = (py_print (ErrFileNotFound f) w, Inr None)"
  by (simp add: extract_disagreements_def)

lemma merge_files_exists:
  assumes "merge_files fs csv_files w = (w1, Inr merged)"
  shows "find (\<lambda>f. \<not> os_path_exists fs f) csv_files = None"
proof -
  have "ensemble_merge fs csv_files = Inr merged"
    using merge_files_result [of fs csv_files w] assms by simp
  then show ?thesis
    by (simp only: find_missing_None ensemble_merge_exists)
qed

lemma extract_merged:
  assumes "merge_files fs csv_files w = (w1, Inr merged)"
  shows "extract_disagreements fs csv_files output_file w = analyse merged output_file w1"
  using assms merge_files_exists [OF assms] by (simp add: extract_disagreements_def)

lemma merge_files_merged_of:
  assumes "merge_files fs csv_files w = (w1, Inr merged)"
  shows "merged_of (length csv_files) merged"
proof -
  have "ensemble_merge fs csv_files = Inr merged"
    using merge_files_result [of fs csv_files w] assms by simp
  then show ?thesis by (rule ensemble_merge_merged_of)
qed

lemma example_merge_files:
  "merge_files example_fs [''a.csv'', ''b.csv'', ''c.csv''] empty_world =
     (\<lparr>console = [LoadedFile ''a.csv'' 3, LoadedFile ''b.csv'' 3, LoadedFile ''c.csv'' 3],
       written = []\<rparr>, Inr example_merged)"
  by (simp add: merge_files_def read_csv_def example_fs_def empty_world_def py_print_def
      set_index_rename_def column_label_def stem_def path_name_def join_inner_def
      example_merged_def)

lemma example_disagreement_rows:
  "disagreement_rows example_merged =
     \<lparr>columns = [''Transported_a'', ''Transported_b'', ''Transported_c''],
      rows = [(Number 1, [True, True, False]), (Number 2, [False, True, False])]\<rparr>"
  by (simp add: disagreement_rows_def boolean_index_def disagreement_mask_def
      transported_cols_def select_values_def nunique_def example_merged_def)

lemma example_extract:
  "extract_disagreements example_fs [''a.csv'', ''b.csv'', ''c.csv''] ''out.csv'' empty_world =
     analyse example_merged ''out.csv''
       \<lparr>console = [LoadedFile ''a.csv'' 3, LoadedFile ''b.csv'' 3, LoadedFile ''c.csv'' 3],
        written = []\<rparr>"
  by (rule extract_merged) (rule example_merge_files)

lemma example_disagrees:
  "filter disagrees (rows example_merged) =
     [(Number 1, [True, True, False]), (Number 2, [False, True, False])]"
  by (auto simp: example_merged_def disagrees_def)


lemma save_final_written:
  "written (save_final csv_files result final_output_file w) =
     written w @ [(final_output_file, submission_csv result)]"
  by (simp add: save_final_def Let_def py_print_written to_csv_written)

lemma odd_mod2: "odd n \<Longrightarrow> n mod 2 = Suc 0"
  by presburger

lemma example_merged_rows:
  "rows example_merged =
     [(Number 1, [True, True, False]), (Number 2, [False, True, False]), (Number 3, [True, True, True])]"
  by (simp add: example_merged_def)

lemma extract_failed:
  assumes "find (\<lambda>f. \<not> os_path_exists fs f) csv_files = None"
    and "merge_files fs csv_files w = (w1, Inl e)"
  shows "extract_disagreements fs csv_files output_file w = (w1, Inl e)"
  using assms by (simp add: extract_disagreements_def)

lemma join_inner_error: "join_inner l r = Inl e \<Longrightarrow> \<exists>cols. e = ValueError cols"
  by (auto simp: join_inner_def Let_def split: if_splits)

lemma read_csv_error: "read_csv fs f = Inl e \<Longrightarrow> e = FileNotFoundError f"
  by (auto simp: read_csv_def split: option.splits)

lemma ensemble_join_error:
  "ensemble_join fs files df = Inl e \<Longrightarrow> e \<noteq> ZeroDivisionError"
  by (induction files arbitrary: df)
    (auto split: sum.splits dest: join_inner_error read_csv_error)

lemma ensemble_merge_error:
  "ensemble_merge fs csv_files = Inl e \<Longrightarrow> e \<noteq> ZeroDivisionError"
  by (auto simp: ensemble_merge_def split: list.splits sum.splits
      dest: ensemble_join_error read_csv_error)




subsection \<open>Facts about \<^verbatim>\<open>main\<close>\<close>


lemma main_extract_failed:
  assumes "filter (os_path_exists fs) (CSV_FILES cfg) = files" and "files \<noteq> []"
    and "extract_disagreements fs files (disagreements_file files)
           (announce (CSV_FILES cfg) files
              (warn_missing (filter (\<lambda>f. \<not> os_path_exists fs f) (CSV_FILES cfg)) w)) = (w3, Inl e)"
  shows "main cfg fs w = (w3, Inl e)"
  using assms by (simp add: main_def Let_def)

lemma main_finished:
  assumes "filter (os_path_exists fs) (CSV_FILES cfg) = files" and "files \<noteq> []"
    and "extract_disagreements fs files (disagreements_file files)
           (announce (CSV_FILES cfg) files
              (warn_missing (filter (\<lambda>f. \<not> os_path_exists fs f) (CSV_FILES cfg)) w)) = (w3, Inr d)"
    and "final_submission (CREATE_FINAL_SUBMISSION cfg) fs files w3 = (w4, Inr ())"
  shows "main cfg fs w = (closing d (disagreements_file files) w4, Inr ())"
  using assms by (simp add: main_def Let_def)

lemma final_submission_even:
  "even (length files) \<Longrightarrow>
   final_submission True fs files w = (py_print (NoteEvenCount (length files)) w, Inr ())"
  by (simp add: final_submission_def)

lemma final_submission_off:
  "final_submission False fs files w = (py_print ComparisonOnly w, Inr ())"
  by (simp add: final_submission_def)



lemma closing_written: "written (closing d output_file w) = written w"
  by (simp add: closing_def py_print_written split: option.splits)



lemma example_stems:
  "stem ''a.csv'' = ''a''" "stem ''b.csv'' = ''b''" "stem ''c.csv'' = ''c''"
  "stem ''old/a.csv'' = ''a''"
  by (simp_all add: stem_def path_name_def)


subsection \<open>Facts about the sources of a row and the saved vote\<close>

lemma join_inner_sources:
  assumes j: "join_inner df (set_index_rename f t) = Inr df'"
    and t: "fs f = Some t"
    and inv: "\<forall>r\<in>set (rows df). row_of_sources fs srcs r"
  shows "\<forall>r\<in>set (rows df'). row_of_sources fs (srcs @ [f]) r"
proof
  fix r
  assume "r \<in> set (rows df')"
  then obtain i vs ws where r: "r = (i, vs @ ws)" and l: "(i, vs) \<in> set (rows df)"
    and w: "(i, ws) \<in> set (rows (set_index_rename f t))"
    unfolding join_inner_row_iff [OF j] by blast
  from w obtain b where ws: "ws = [b]" and b: "(i, b) \<in> set t"
    by (auto simp: set_index_rename_def)
  from inv l have old: "row_of_sources fs srcs (i, vs)"
    by blast
  then have len: "length vs = length srcs"
    by (simp add: row_of_sources_def)
  have "\<exists>t'. fs ((srcs @ [f]) ! k) = Some t' \<and> (i, (vs @ [b]) ! k) \<in> set t'"
    if "k < length (srcs @ [f])" for k
  proof (cases "k < length srcs")
    case True
    with old len show ?thesis
      by (simp add: row_of_sources_def nth_append)
  next
    case False
    with that have "k = length srcs"
      by simp
    with len t b show ?thesis
      by (simp add: nth_append)
  qed
  with len show "row_of_sources fs (srcs @ [f]) r"
    by (simp add: row_of_sources_def r ws)
qed

lemma ensemble_join_sources:
  "ensemble_join fs files df = Inr m \<Longrightarrow>
   \<forall>r\<in>set (rows df). row_of_sources fs srcs r \<Longrightarrow>
   \<forall>r\<in>set (rows m). row_of_sources fs (srcs @ files) r"
proof (induction files arbitrary: df srcs)
  case Nil
  then show ?case by simp
next
  case (Cons f files)
  from Cons.prems(1) obtain t df' where
    t: "read_csv fs f = Inr t" and
    j: "join_inner df (set_index_rename f t) = Inr df'" and
    r: "ensemble_join fs files df' = Inr m"
    by (auto split: sum.splits)
  from t have "fs f = Some t"
    by (auto simp: read_csv_def split: option.splits)
  from join_inner_sources [OF j this Cons.prems(2)]
  have "\<forall>r\<in>set (rows df'). row_of_sources fs (srcs @ [f]) r" .
  from Cons.IH [OF r this] show ?case by simp
qed

lemma ensemble_merge_sources:
  assumes "ensemble_merge fs csv_files = Inr m"
  shows "\<forall>r\<in>set (rows m). row_of_sources fs csv_files r"
proof -
  from assms obtain f0 files t where c: "csv_files = f0 # files"
    and t: "read_csv fs f0 = Inr t"
    and j: "ensemble_join fs files (set_index_rename f0 t) = Inr m"
    by (auto simp: ensemble_merge_def split: list.splits sum.splits)
  from t have "fs f0 = Some t"
    by (auto simp: read_csv_def split: option.splits)
  then have "\<forall>r\<in>set (rows (set_index_rename f0 t)). row_of_sources fs [f0] r"
    by (auto simp: set_index_rename_def row_of_sources_def)
  from ensemble_join_sources [OF j this] show ?thesis
    by (simp add: c)
qed

lemma true_count_count_list: "true_count vs = count_list vs True"
  by (induction vs) (auto simp: true_count_def)

lemma false_count_count_list:
  "count_list (map (\<lambda>r. \<not> snd r) t) True = count_list (map snd t) False"
  by (induction t) auto

lemma save_final_console:
  "console (save_final csv_files result final_output_file w) =
     console w @ [EnsembleHeader, UsedFiles (length csv_files),
                  TruePredictions (count_list (map snd result) True),
                  FalsePredictions (count_list (map snd result) False),
                  SavedFinal final_output_file]"
  by (simp add: save_final_def Let_def py_print_console to_csv_def true_count_count_list
      false_count_count_list)

lemma save_final_written_rows:
  "written (save_final csv_files result final_output_file w) =
     written w @ [(final_output_file,
       \<lparr>header = [''PassengerId'', ''Transported''], body = map (\<lambda>r. (fst r, [snd r])) result\<rparr>)]"
  by (simp add: save_final_written submission_csv_def split_beta)

lemma example_vote_merge:
  "ensemble_merge example_fs [''c.csv'', ''a.csv'', ''b.csv''] =
     Inr \<lparr>columns = [''Transported_c'', ''Transported_a'', ''Transported_b''],
          rows = [(Number 1, [False, True, True]), (Number 2, [False, False, True]),
                  (Number 3, [True, True, True])]\<rparr>"
  by (simp add: ensemble_merge_def read_csv_def example_fs_def set_index_rename_def
      column_label_def stem_def path_name_def join_inner_def)

subsection \<open>Further facts about the examples and the console\<close>

lemma closing_console:
  "console (closing d output_file w) =
     console w @ [case d of
                    None \<Rightarrow> Done
                  | Some df \<Rightarrow> if rows df = [] then Done
                               else DoneSaved (length (rows df)) output_file]"
  by (simp add: closing_def py_print_console split: option.splits)

lemma example_even_extract:
  "extract_disagreements example_fs [''a.csv'', ''b.csv''] (disagreements_file [''a.csv'', ''b.csv''])
     (announce [''a.csv'', ''none.csv'', ''b.csv''] [''a.csv'', ''b.csv'']
        (warn_missing [''none.csv''] empty_world)) =
   (\<lparr>console =
       [WarnMissingHeader, MissingFile ''none.csv'',
        ProcessingExisting [''a.csv'', ''b.csv''], Banner,
        InputFiles [''a.csv'', ''b.csv''],
        OutputFile ''disagreements_a_vs_b.csv'', BlankLine,
        LoadedFile ''a.csv'' 3, LoadedFile ''b.csv'' 3, MergedRows 3,
        DisagreementRows 1, SavedTo ''disagreements_a_vs_b.csv'', StatsHeader,
        TotalRows 3, DisagreementCount 1, AgreementRate (200 / 3),
        DistributionHeader, ColumnDistribution ''Transported_a'' 0 1,
        ColumnDistribution ''Transported_b'' 1 0, SampleHeader,
        Sample \<lparr>columns = [''Transported_a'', ''Transported_b''],
                rows = [(Number 2, [False, True])]\<rparr>],
      written =
        [(''disagreements_a_vs_b.csv'',
          \<lparr>header = [''PassengerId'', ''Transported_a'', ''Transported_b''],
           body = [(Number 2, [False, True])]\<rparr>)]\<rparr>,
    Inr (Some \<lparr>columns = [''Transported_a'', ''Transported_b''],
               rows = [(Number 2, [False, True])]\<rparr>))"
  by (simp add: extract_disagreements_def os_path_exists_def example_fs_def merge_files_def
      read_csv_def set_index_rename_def column_label_def example_stems join_inner_def
      analyse_def disagreement_rows_def boolean_index_def disagreement_mask_def
      transported_cols_def select_values_def nunique_def save_and_report_def
      agreement_rate_def column_values_def true_count_def frame_csv_def to_csv_def
      py_print_def announce_def warn_missing_def disagreements_file_def empty_world_def
      Let_def)


section \<open>Properties\<close>

subsection \<open>Majority vote (C1)\<close>

text \<open>
  C1. For an odd number of input files whose merge yields a table, the majority vote
  (also when run from \<open>main\<close> with the final submission enabled) returns and
  writes, under the header \<^verbatim>\<open>PassengerId,Transported\<close>, one row per row of the merged
  table, in the same order and with the same identifier, whose prediction is true
  exactly when strictly more than half of the row's values are true. The row holds one
  value per source, the prediction of that source for the identifier. The console
  reports the number of files and of true and false predictions.
\<close>

theorem majority_vote_strict:
  assumes "odd (length csv_files)" and "ensemble_merge fs csv_files = Inr merged"
  shows "\<exists>result w' w''.
           result = map (\<lambda>r. (fst r, (of_nat (length csv_files) :: rat) / 2
                                        < of_nat (count_list (snd r) True))) (rows merged) \<and>
           (\<forall>r\<in>set (rows merged). row_of_sources fs csv_files r) \<and>
           create_ensemble_prediction fs csv_files final_output_file w = (w', Inr (Some result)) \<and>
           written w' = written w @ [(final_output_file,
             \<lparr>header = [''PassengerId'', ''Transported''],
              body = map (\<lambda>r. (fst r, [snd r])) result\<rparr>)] \<and>
           console w' = console w @ [EnsembleHeader, UsedFiles (length csv_files),
             TruePredictions (count_list (map snd result) True),
             FalsePredictions (count_list (map snd result) False),
             SavedFinal final_output_file] \<and>
           final_submission True fs csv_files w = (w'', Inr ()) \<and>
           written w'' = written w @ [(''final_submission.csv'',
             \<lparr>header = [''PassengerId'', ''Transported''],
              body = map (\<lambda>r. (fst r, [snd r])) result\<rparr>)]"
proof -
  let ?result = "map (\<lambda>r. (fst r, (of_nat (length csv_files) :: rat) / 2
                                        < of_nat (count_list (snd r) True))) (rows merged)"
  have m: "merged_of (length csv_files) merged"
    using assms(2) by (rule ensemble_merge_merged_of)
  then have v: "majority_vote merged = ?result"
    by (simp add: merged_majority_vote true_count_count_list)
  have c: "create_ensemble_prediction fs csv_files out w =
          (save_final csv_files ?result out w, Inr (Some ?result))" for out
    using assms odd_mod2 [OF assms(1)] v
    by (simp add: create_ensemble_prediction_def Let_def)
  have f: "final_submission True fs csv_files w =
          (save_final csv_files ?result ''final_submission.csv'' w, Inr ())"
    using odd_mod2 [OF assms(1)] by (simp add: final_submission_def c)
  have s: "\<forall>r\<in>set (rows merged). row_of_sources fs csv_files r"
    using assms(2) by (rule ensemble_merge_sources)
  show ?thesis
    using c [of final_output_file] f s
      save_final_written_rows [of csv_files ?result final_output_file w]
      save_final_written_rows [of csv_files ?result "''final_submission.csv''" w]
      save_final_console [of csv_files ?result final_output_file w]
    by (intro exI [of _ ?result] exI [of _ "save_final csv_files ?result final_output_file w"]
        exI [of _ "save_final csv_files ?result ''final_submission.csv'' w"]) simp
qed

theorem majority_vote_strict_example:
  "create_ensemble_prediction example_fs [''c.csv'', ''a.csv'', ''b.csv''] ''final.csv'' empty_world =
     (\<lparr>console = [EnsembleHeader, UsedFiles 3, TruePredictions 2, FalsePredictions 1,
                  SavedFinal ''final.csv''],
       written = [(''final.csv'',
         \<lparr>header = [''PassengerId'', ''Transported''],
          body = [(Number 1, [True]), (Number 2, [False]), (Number 3, [True])]\<rparr>)]\<rparr>,
      Inr (Some [(Number 1, True), (Number 2, False), (Number 3, True)]))"
proof -
  have "odd (length [''c.csv'', ''a.csv'', ''b.csv''])"
    by simp
  from majority_vote_strict [OF this example_vote_merge, of "''final.csv''" empty_world]
  obtain w' where
    c: "create_ensemble_prediction example_fs [''c.csv'', ''a.csv'', ''b.csv''] ''final.csv'' empty_world =
         (w', Inr (Some [(Number 1, True), (Number 2, False), (Number 3, True)]))"
    and wr: "written w' = [(''final.csv'',
         \<lparr>header = [''PassengerId'', ''Transported''],
          body = [(Number 1, [True]), (Number 2, [False]), (Number 3, [True])]\<rparr>)]"
    and co: "console w' = [EnsembleHeader, UsedFiles 3, TruePredictions 2, FalsePredictions 1,
                  SavedFinal ''final.csv'']"
    by (auto simp: empty_world_def)
  have "w' = \<lparr>console = console w', written = written w'\<rparr>"
    by simp
  with c wr co show ?thesis
    by simp
qed

subsection \<open>Identifiers of the merged table (C2)\<close>



subsection \<open>Disagreement rows (C3)\<close>

text \<open>
  C3. Whenever the merge of the input files yields a table, \<^verbatim>\<open>extract_disagreements\<close>
  returns exactly the rows of that table whose per-source values are not all equal, in
  table order and with all per-source columns; rows whose values are all equal are left
  out.
\<close>

theorem disagreement_rows_exact:
  assumes "merge_files fs csv_files w = (w1, Inr merged)"
  shows "(\<exists>w2. extract_disagreements fs csv_files output_file w =
                  (w2, Inr (Some (disagreement_rows merged)))) \<and>
         rows (disagreement_rows merged) = filter disagrees (rows merged) \<and>
         columns (disagreement_rows merged) = columns merged \<and>
         columns merged = map column_label csv_files \<and>
         list_all (\<lambda>r. length (snd r) = length csv_files) (rows (disagreement_rows merged))"
proof -
  have m: "merged_of (length csv_files) merged"
    using assms by (rule merge_files_merged_of)
  have "snd (extract_disagreements fs csv_files output_file w) =
          Inr (Some (disagreement_rows merged))"
    by (simp add: extract_merged [OF assms] analyse_result)
  then have "\<exists>w2. extract_disagreements fs csv_files output_file w =
                  (w2, Inr (Some (disagreement_rows merged)))"
    by (metis prod.collapse)
  moreover have "rows (disagreement_rows merged) = filter disagrees (rows merged)"
    using m by (rule merged_disagreement_rows)
  moreover have "ensemble_merge fs csv_files = Inr merged"
    using merge_files_result [of fs csv_files w] assms by simp
  then have "columns merged = map column_label csv_files"
    by (rule ensemble_merge_columns)
  moreover have "list_all (\<lambda>r. length (snd r) = length csv_files) (rows (disagreement_rows merged))"
    using merged_of_disagreement_rows [OF m] by (simp add: merged_of_def)
  ultimately show ?thesis
    by (simp add: disagreement_rows_columns)
qed

theorem disagreement_rows_exact_example:
  "(\<exists>w2. extract_disagreements example_fs [''a.csv'', ''b.csv'', ''c.csv''] ''out.csv'' empty_world =
            (w2, Inr (Some (disagreement_rows example_merged)))) \<and>
   rows (disagreement_rows example_merged) =
     [(Number 1, [True, True, False]), (Number 2, [False, True, False])] \<and>
   columns (disagreement_rows example_merged) =
     [''Transported_a'', ''Transported_b'', ''Transported_c'']"
  using disagreement_rows_exact [OF example_merge_files, of "''out.csv''"]
  by (simp add: example_disagrees) (simp add: example_merged_def)

subsection \<open>Even number of sources (C4)\<close>

text \<open>
  C4. With an even number of files the majority vote returns nothing, writes nothing
  and leaves its warning, with the number of files, as the last line on the console.
  \<open>main\<close>, with the final submission enabled and an even number of existing files,
  prints its notice in place of the vote once the extraction has returned, followed
  only by its closing line; the result of the disagreement extraction and the files
  written are those of the run with the final submission disabled.
\<close>

theorem even_count_skips_vote:
  assumes "even (length files)"
  shows "create_ensemble_prediction fs files final_output_file w0 =
           (py_print (WarnEvenCount (length files)) w0, Inr None) \<and>
         console (fst (create_ensemble_prediction fs files final_output_file w0)) =
           console w0 @ [WarnEvenCount (length files)] \<and>
         written (fst (create_ensemble_prediction fs files final_output_file w0)) = written w0 \<and>
         written (py_print (WarnEvenCount (length files)) w0) = written w0 \<and>
         (filter (os_path_exists fs) (CSV_FILES cfg) = files \<and> files \<noteq> [] \<and>
          CREATE_FINAL_SUBMISSION cfg \<and>
          extract_disagreements fs files (disagreements_file files)
            (announce (CSV_FILES cfg) files
               (warn_missing (filter (\<lambda>f. \<not> os_path_exists fs f) (CSV_FILES cfg)) w)) = (w3, r)
          \<longrightarrow>
            (\<forall>d. r = Inr d \<longrightarrow>
               main cfg fs w =
                 (closing d (disagreements_file files)
                    (py_print (NoteEvenCount (length files)) w3), Inr ()) \<and>
               console (fst (main cfg fs w)) =
                 console w3 @
                   [NoteEvenCount (length files),
                    case d of
                      None \<Rightarrow> Done
                    | Some df \<Rightarrow> if rows df = [] then Done
                                 else DoneSaved (length (rows df)) (disagreements_file files)] \<and>
               main (cfg\<lparr>CREATE_FINAL_SUBMISSION := False\<rparr>) fs w =
                 (closing d (disagreements_file files) (py_print ComparisonOnly w3), Inr ())) \<and>
            (\<forall>e. r = Inl e \<longrightarrow>
               main cfg fs w = (w3, Inl e) \<and>
               main (cfg\<lparr>CREATE_FINAL_SUBMISSION := False\<rparr>) fs w = (w3, Inl e)) \<and>
            written (fst (main cfg fs w)) = written w3 \<and>
            written (fst (main (cfg\<lparr>CREATE_FINAL_SUBMISSION := False\<rparr>) fs w)) = written w3)"
proof (intro conjI impI)
  show c: "create_ensemble_prediction fs files final_output_file w0 =
           (py_print (WarnEvenCount (length files)) w0, Inr None)"
    using assms by (simp add: create_ensemble_prediction_def)
  show "console (fst (create_ensemble_prediction fs files final_output_file w0)) =
           console w0 @ [WarnEvenCount (length files)]"
    by (simp add: c py_print_console)
  show "written (fst (create_ensemble_prediction fs files final_output_file w0)) = written w0"
    by (simp add: c py_print_written)
  show "written (py_print (WarnEvenCount (length files)) w0) = written w0"
    by (rule py_print_written)
next
  let ?off = "cfg\<lparr>CREATE_FINAL_SUBMISSION := False\<rparr>"
  assume a: "filter (os_path_exists fs) (CSV_FILES cfg) = files \<and> files \<noteq> [] \<and>
          CREATE_FINAL_SUBMISSION cfg \<and>
          extract_disagreements fs files (disagreements_file files)
            (announce (CSV_FILES cfg) files
               (warn_missing (filter (\<lambda>f. \<not> os_path_exists fs f) (CSV_FILES cfg)) w)) = (w3, r)"
  then have f: "filter (os_path_exists fs) (CSV_FILES cfg) = files" and ne: "files \<noteq> []"
    and on: "CREATE_FINAL_SUBMISSION cfg"
    and ex: "extract_disagreements fs files (disagreements_file files)
            (announce (CSV_FILES cfg) files
               (warn_missing (filter (\<lambda>f. \<not> os_path_exists fs f) (CSV_FILES cfg)) w)) = (w3, r)"
    by simp_all
  have off: "filter (os_path_exists fs) (CSV_FILES ?off) = files"
    using f by simp
  have ex_off: "extract_disagreements fs files (disagreements_file files)
           (announce (CSV_FILES ?off) files
              (warn_missing (filter (\<lambda>f. \<not> os_path_exists fs f) (CSV_FILES ?off)) w)) = (w3, r)"
    using ex by simp
  have on_ok: "main cfg fs w =
      (closing d (disagreements_file files) (py_print (NoteEvenCount (length files)) w3), Inr ())"
    if "r = Inr d" for d
    using main_finished [OF f ne, of w w3 d "py_print (NoteEvenCount (length files)) w3"]
      on ex that final_submission_even [OF assms, of fs w3]
    by simp
  have off_ok: "main ?off fs w =
      (closing d (disagreements_file files) (py_print ComparisonOnly w3), Inr ())"
    if "r = Inr d" for d
    using main_finished [OF off ne, of w w3 d "py_print ComparisonOnly w3"]
      ex_off that final_submission_off [of fs files w3]
    by simp
  have on_err: "main cfg fs w = (w3, Inl e)" if "r = Inl e" for e
    using main_extract_failed [OF f ne, of w w3 e] ex that by simp
  have off_err: "main ?off fs w = (w3, Inl e)" if "r = Inl e" for e
    using main_extract_failed [OF off ne, of w w3 e] ex_off that by simp
  have on_console: "console (fst (main cfg fs w)) =
      console w3 @
        [NoteEvenCount (length files),
         case d of
           None \<Rightarrow> Done
         | Some df \<Rightarrow> if rows df = [] then Done
                      else DoneSaved (length (rows df)) (disagreements_file files)]"
    if "r = Inr d" for d
    by (simp add: on_ok [OF that] closing_console py_print_console)
  show "\<forall>d. r = Inr d \<longrightarrow>
               main cfg fs w =
                 (closing d (disagreements_file files)
                    (py_print (NoteEvenCount (length files)) w3), Inr ()) \<and>
               console (fst (main cfg fs w)) =
                 console w3 @
                   [NoteEvenCount (length files),
                    case d of
                      None \<Rightarrow> Done
                    | Some df \<Rightarrow> if rows df = [] then Done
                                 else DoneSaved (length (rows df)) (disagreements_file files)] \<and>
               main ?off fs w =
                 (closing d (disagreements_file files) (py_print ComparisonOnly w3), Inr ())"
    using on_ok off_ok on_console by blast
  show "\<forall>e. r = Inl e \<longrightarrow> main cfg fs w = (w3, Inl e) \<and> main ?off fs w = (w3, Inl e)"
    using on_err off_err by blast
  show "written (fst (main cfg fs w)) = written w3"
    by (cases r) (simp_all add: on_ok on_err closing_written py_print_written)
  show "written (fst (main ?off fs w)) = written w3"
    by (cases r) (simp_all add: off_ok off_err closing_written py_print_written)
qed

theorem even_count_skips_vote_example:
  "create_ensemble_prediction example_fs [''a.csv'', ''b.csv''] ''final_submission.csv'' empty_world =
     (\<lparr>console = [WarnEvenCount 2], written = []\<rparr>, Inr None) \<and>
   main \<lparr>CSV_FILES = [''a.csv'', ''none.csv'', ''b.csv''], CREATE_FINAL_SUBMISSION = True\<rparr>
     example_fs empty_world =
     (\<lparr>console =
         [WarnMissingHeader, MissingFile ''none.csv'',
          ProcessingExisting [''a.csv'', ''b.csv''], Banner,
          InputFiles [''a.csv'', ''b.csv''],
          OutputFile ''disagreements_a_vs_b.csv'', BlankLine,
          LoadedFile ''a.csv'' 3, LoadedFile ''b.csv'' 3, MergedRows 3,
          DisagreementRows 1, SavedTo ''disagreements_a_vs_b.csv'', StatsHeader,
          TotalRows 3, DisagreementCount 1, AgreementRate (200 / 3),
          DistributionHeader, ColumnDistribution ''Transported_a'' 0 1,
          ColumnDistribution ''Transported_b'' 1 0, SampleHeader,
          Sample \<lparr>columns = [''Transported_a'', ''Transported_b''],
                  rows = [(Number 2, [False, True])]\<rparr>,
          NoteEvenCount 2, DoneSaved 1 ''disagreements_a_vs_b.csv''],
        written =
          [(''disagreements_a_vs_b.csv'',
            \<lparr>header = [''PassengerId'', ''Transported_a'', ''Transported_b''],
             body = [(Number 2, [False, True])]\<rparr>)]\<rparr>,
      Inr ())"
proof -
  let ?cfg = "\<lparr>CSV_FILES = [''a.csv'', ''none.csv'', ''b.csv''], CREATE_FINAL_SUBMISSION = True\<rparr>"
  let ?files = "[''a.csv'', ''b.csv'']"
  have f: "filter (os_path_exists example_fs) (CSV_FILES ?cfg) = ?files"
    by (simp add: os_path_exists_def example_fs_def)
  have m: "filter (\<lambda>f. \<not> os_path_exists example_fs f) (CSV_FILES ?cfg) = [''none.csv'']"
    by (simp add: os_path_exists_def example_fs_def)
  have n: "disagreements_file ?files = ''disagreements_a_vs_b.csv''"
    by (simp add: disagreements_file_def example_stems)
  have e: "even (length ?files)"
    by simp
  note t = even_count_skips_vote [OF e, of example_fs "''final_submission.csv''" empty_world
      ?cfg empty_world _ "Inr (Some \<lparr>columns = [''Transported_a'', ''Transported_b''],
               rows = [(Number 2, [False, True])]\<rparr>)"]
  from t have "create_ensemble_prediction example_fs ?files ''final_submission.csv'' empty_world =
     (\<lparr>console = [WarnEvenCount 2], written = []\<rparr>, Inr None)"
    by (simp add: py_print_def empty_world_def numeral_2_eq_2)
  moreover from t f m example_even_extract
  have "main ?cfg example_fs empty_world =
      (closing (Some \<lparr>columns = [''Transported_a'', ''Transported_b''],
                  rows = [(Number 2, [False, True])]\<rparr>) (disagreements_file ?files)
         (py_print (NoteEvenCount (length ?files))
           \<lparr>console =
       [WarnMissingHeader, MissingFile ''none.csv'',
        ProcessingExisting [''a.csv'', ''b.csv''], Banner,
        InputFiles [''a.csv'', ''b.csv''],
        OutputFile ''disagreements_a_vs_b.csv'', BlankLine,
        LoadedFile ''a.csv'' 3, LoadedFile ''b.csv'' 3, MergedRows 3,
        DisagreementRows 1, SavedTo ''disagreements_a_vs_b.csv'', StatsHeader,
        TotalRows 3, DisagreementCount 1, AgreementRate (200 / 3),
        DistributionHeader, ColumnDistribution ''Transported_a'' 0 1,
        ColumnDistribution ''Transported_b'' 1 0, SampleHeader,
        Sample \<lparr>columns = [''Transported_a'', ''Transported_b''],
                rows = [(Number 2, [False, True])]\<rparr>],
      written =
        [(''disagreements_a_vs_b.csv'',
          \<lparr>header = [''PassengerId'', ''Transported_a'', ''Transported_b''],
           body = [(Number 2, [False, True])]\<rparr>)]\<rparr>), Inr ())"
    by simp
  ultimately show ?thesis
    by (simp add: closing_def py_print_def n numeral_2_eq_2)
qed

subsection \<open>Failures of the merge (C5)\<close>




subsection \<open>Exit status (C6)\<close>




subsection \<open>When the output file is written (C7)\<close>

text \<open>
  C7. \<^verbatim>\<open>extract_disagreements\<close> writes the output file exactly when it finds a
  disagreement row: then it writes, once, the identifier column and one column per
  input file, with the disagreement rows only; otherwise it writes nothing, and when
  it returns a frame (without rows, as always when the merged table has none) it has
  only reported the row counts and that all predictions agree.
\<close>

theorem output_written_iff_disagreement:
  assumes "extract_disagreements fs csv_files output_file w = (w', r)"
  shows "((\<exists>d. r = Inr (Some d) \<and> rows d \<noteq> [] \<and>
             written w' = written w @ [(output_file, frame_csv d)] \<and>
             header (frame_csv d) = ''PassengerId'' # map column_label csv_files \<and>
             body (frame_csv d) = rows d \<and>
             list_all (\<lambda>row. disagrees row \<and> length (snd row) = length csv_files) (rows d))
          \<or>
          (written w' = written w \<and>
           (\<forall>d. r = Inr (Some d) \<longrightarrow> rows d = [] \<and>
              (\<exists>w1 merged. merge_files fs csv_files w = (w1, Inr merged) \<and>
                 console w' = console w1 @ [MergedRows (length (rows merged)),
                                            DisagreementRows 0, NoDisagreements])))) \<and>
         (\<forall>w1 merged. merge_files fs csv_files w = (w1, Inr merged) \<and> rows merged = [] \<longrightarrow>
            written w' = written w)"
proof (cases "find (\<lambda>f. \<not> os_path_exists fs f) csv_files")
  case (Some f)
  have "merge_files fs csv_files w \<noteq> (w1, Inr merged)" for w1 merged
    using merge_files_exists [of fs csv_files w w1 merged] Some by auto
  with extract_missing [OF Some, of output_file w] assms show ?thesis
    by (auto simp: py_print_written)
next
  case None
  obtain w1 r1 where mf: "merge_files fs csv_files w = (w1, r1)"
    by (cases "merge_files fs csv_files w")
  have w1: "written w1 = written w"
    using merge_files_written [of fs csv_files w] mf by simp
  show ?thesis
  proof (cases r1)
    case (Inl e)
    with extract_failed [OF None, of w w1 e output_file] mf assms w1 show ?thesis
      by auto
  next
    case (Inr m)
    have a: "analyse m output_file w1 = (w', r)"
      using extract_merged [of fs csv_files w w1 m output_file] mf Inr assms by simp
    have mo: "merged_of (length csv_files) m"
      using mf Inr by (intro merge_files_merged_of [of fs csv_files w w1]) simp
    show ?thesis
    proof (cases "rows (disagreement_rows m) = []")
      case True
      from analyse_empty [OF True, of output_file w1] a
      have "r = Inr (Some (disagreement_rows m))" "written w' = written w"
        "console w' = console w1 @ [MergedRows (length (rows m)), DisagreementRows 0, NoDisagreements]"
        using w1 by (auto simp: py_print_written py_print_console)
      with True mf Inr show ?thesis
        by auto
    next
      case False
      from analyse_nonempty [OF False, of output_file w1] a
      have r: "r = Inr (Some (disagreement_rows m))"
        and wr: "written w' = written w @ [(output_file, frame_csv (disagreement_rows m))]"
        using w1 by auto
      have "ensemble_merge fs csv_files = Inr m"
        using merge_files_result [of fs csv_files w] mf Inr by simp
      then have h: "header (frame_csv (disagreement_rows m)) = ''PassengerId'' # map column_label csv_files"
        by (simp add: frame_csv_def disagreement_rows_columns ensemble_merge_columns)
      have "list_all (\<lambda>row. disagrees row \<and> length (snd row) = length csv_files)
              (rows (disagreement_rows m))"
        using merged_of_disagreement_rows [OF mo] merged_disagreement_rows [OF mo]
        by (auto simp: merged_of_def list_all_iff)
      moreover have "rows m \<noteq> []"
        using False by (rule disagreement_rows_nonempty)
      ultimately show ?thesis
        using r wr h False mf Inr by (auto simp: frame_csv_def)
    qed
  qed
qed

theorem output_written_iff_disagreement_example:
  "\<exists>w'. extract_disagreements example_fs [''a.csv'', ''b.csv'', ''c.csv''] ''out.csv'' empty_world =
           (w', Inr (Some (disagreement_rows example_merged))) \<and>
         written w' = [(''out.csv'', frame_csv (disagreement_rows example_merged))] \<and>
         header (frame_csv (disagreement_rows example_merged)) =
           [''PassengerId'', ''Transported_a'', ''Transported_b'', ''Transported_c''] \<and>
         body (frame_csv (disagreement_rows example_merged)) =
           [(Number 1, [True, True, False]), (Number 2, [False, True, False])]"
proof -
  let ?e = "extract_disagreements example_fs [''a.csv'', ''b.csv'', ''c.csv''] ''out.csv'' empty_world"
  have r: "snd ?e = Inr (Some (disagreement_rows example_merged))"
    by (simp add: example_extract analyse_result)
  then obtain w' where e: "?e = (w', Inr (Some (disagreement_rows example_merged)))"
    by (metis prod.collapse)
  have "rows (disagreement_rows example_merged) \<noteq> []"
    by (simp add: example_disagreement_rows)
  with output_written_iff_disagreement [OF e]
  have "written w' = written empty_world @ [(''out.csv'', frame_csv (disagreement_rows example_merged))]"
    by auto
  with e show ?thesis
    by (simp add: empty_world_def frame_csv_def example_disagreement_rows)
qed

subsection \<open>A single source (C8)\<close>

text \<open>
  C8. With a single input file \<^verbatim>\<open>extract_disagreements\<close> flags no row and writes no file:
  it returns a frame without rows when the file exists, and nothing when it does not.
\<close>

theorem single_source_no_disagreement:
  assumes "extract_disagreements fs [f] output_file w = (w', r)"
  shows "written w' = written w \<and>
         (r = Inr None \<and> fs f = None \<or>
          (\<exists>d. r = Inr (Some d) \<and> rows d = [] \<and> fs f \<noteq> None))"
proof (cases "fs f")
  case None
  then have "find (\<lambda>f. \<not> os_path_exists fs f) [f] = Some f"
    by (simp add: os_path_exists_def)
  from extract_missing [OF this, of output_file w] assms None show ?thesis
    by (auto simp: py_print_written)
next
  case (Some t)
  let ?w1 = "py_print (LoadedFile f (length t)) w"
  let ?m = "set_index_rename f t"
  have mf: "merge_files fs [f] w = (?w1, Inr ?m)"
    using Some by (simp add: merge_files_def read_csv_def)
  have "merged_of 1 ?m"
    by (rule merged_of_set_index_rename)
  then have "rows (disagreement_rows ?m) = filter disagrees (rows ?m)"
    by (rule merged_disagreement_rows)
  also have "\<dots> = []"
    by (auto simp: set_index_rename_def disagrees_def filter_empty_conv)
  finally have e: "rows (disagreement_rows ?m) = []" .
  have "extract_disagreements fs [f] output_file w = analyse ?m output_file ?w1"
    using mf by (rule extract_merged)
  with assms have "analyse ?m output_file ?w1 = (w', r)"
    by simp
  with analyse_empty [OF e, of output_file ?w1] e Some show ?thesis
    by (auto simp: py_print_written)
qed

theorem single_source_no_disagreement_example:
  "\<exists>w' d. extract_disagreements example_fs [''a.csv''] ''out.csv'' empty_world = (w', Inr (Some d)) \<and>
     rows d = [] \<and> written w' = []"
proof -
  obtain w' r where e: "extract_disagreements example_fs [''a.csv''] ''out.csv'' empty_world = (w', r)"
    by (cases "extract_disagreements example_fs [''a.csv''] ''out.csv'' empty_world")
  have "example_fs ''a.csv'' \<noteq> None"
    by (simp add: example_fs_def)
  with single_source_no_disagreement [OF e] e show ?thesis
    by (auto simp: empty_world_def)
qed

subsection \<open>Idempotence of the filter (C9)\<close>

text \<open>
  C9. The disagreement filter is idempotent: applied to its own output, with the same
  columns, it returns that output unchanged.
\<close>

theorem disagreement_filter_idempotent:
  "disagreement_rows (disagreement_rows df) = disagreement_rows df"
proof -
  let ?p = "\<lambda>r. 1 < nunique (select_values (columns df) (transported_cols df) (snd r))"
  have "rows (disagreement_rows (disagreement_rows df)) = filter ?p (filter ?p (rows df))"
    by (simp add: disagreement_rows_rows [of "disagreement_rows df"]
        disagreement_rows_rows [of df] disagreement_rows_columns
        transported_cols_disagreement_rows)
  then have r: "rows (disagreement_rows (disagreement_rows df)) = rows (disagreement_rows df)"
    by (simp add: disagreement_rows_rows [of df])
  have c: "columns (disagreement_rows (disagreement_rows df)) = columns (disagreement_rows df)"
    by (simp add: disagreement_rows_columns)
  show ?thesis
    by (rule data_frame.equality) (simp_all add: r c)
qed

theorem disagreement_filter_idempotent_example:
  "disagreement_rows (disagreement_rows example_merged) = disagreement_rows example_merged \<and>
   rows (disagreement_rows example_merged) =
     [(Number 1, [True, True, False]), (Number 2, [False, True, False])]"
  using disagreement_filter_idempotent [of example_merged]
  by (simp add: example_disagreement_rows)

subsection \<open>No division by zero (C10)\<close>

text \<open>
  C10. \<^verbatim>\<open>extract_disagreements\<close> never fails with a division by zero: the agreement
  rate is computed only in the branch taken when there is a disagreement row, a frame
  with a disagreement row has a row, and so the divisor is positive; without a
  disagreement row only the three counting messages are printed.
\<close>

theorem agreement_rate_divisor_positive:
  "snd (extract_disagreements fs csv_files output_file w) \<noteq> Inl ZeroDivisionError \<and>
   (rows (disagreement_rows merged) \<noteq> [] \<longrightarrow>
      0 < length (rows merged) \<and>
      agreement_rate (length (rows merged)) (length (rows (disagreement_rows merged))) =
        Inr (of_int (int (length (rows merged)) - int (length (rows (disagreement_rows merged))))
             / of_nat (length (rows merged)) * 100)) \<and>
   (rows (disagreement_rows merged) = [] \<longrightarrow>
      analyse merged output_file w =
        (py_print NoDisagreements (py_print (DisagreementRows 0)
           (py_print (MergedRows (length (rows merged))) w)),
         Inr (Some (disagreement_rows merged))))"
proof (intro conjI impI)
  show "snd (extract_disagreements fs csv_files output_file w) \<noteq> Inl ZeroDivisionError"
  proof (cases "find (\<lambda>f. \<not> os_path_exists fs f) csv_files")
    case (Some f)
    then show ?thesis by (simp add: extract_missing)
  next
    case None
    obtain w1 r where mf: "merge_files fs csv_files w = (w1, r)"
      by (cases "merge_files fs csv_files w")
    show ?thesis
    proof (cases r)
      case (Inl e)
      then have "ensemble_merge fs csv_files = Inl e"
        using merge_files_result [of fs csv_files w] mf by simp
      then have "e \<noteq> ZeroDivisionError"
        by (rule ensemble_merge_error)
      then show ?thesis
        using extract_failed [OF None, of w w1 e output_file] mf Inl by simp
    next
      case (Inr m)
      then show ?thesis
        using extract_merged [of fs csv_files w w1 m output_file] mf
        by (simp add: analyse_result)
    qed
  qed
next
  assume "rows (disagreement_rows merged) \<noteq> []"
  then have "rows merged \<noteq> []"
    by (rule disagreement_rows_nonempty)
  then show "0 < length (rows merged)"
    by simp
  then show "agreement_rate (length (rows merged)) (length (rows (disagreement_rows merged))) =
        Inr (of_int (int (length (rows merged)) - int (length (rows (disagreement_rows merged))))
             / of_nat (length (rows merged)) * 100)"
    by (simp add: agreement_rate_def)
next
  assume "rows (disagreement_rows merged) = []"
  then show "analyse merged output_file w =
        (py_print NoDisagreements (py_print (DisagreementRows 0)
           (py_print (MergedRows (length (rows merged))) w)),
         Inr (Some (disagreement_rows merged)))"
    by (rule analyse_empty)
qed

theorem agreement_rate_divisor_positive_example:
  "snd (extract_disagreements example_fs [''a.csv'', ''b.csv'', ''c.csv''] ''out.csv'' empty_world)
     \<noteq> Inl ZeroDivisionError \<and>
   agreement_rate (length (rows example_merged))
     (length (rows (disagreement_rows example_merged))) = Inr (100 / 3)"
proof -
  have "rows (disagreement_rows example_merged) \<noteq> []"
    by (simp add: example_disagreement_rows)
  with agreement_rate_divisor_positive [of example_fs "[''a.csv'', ''b.csv'', ''c.csv'']"
      "''out.csv''" empty_world example_merged]
  show ?thesis
    by (simp add: example_disagreement_rows example_merged_rows)
qed

end
